theory Spec2Isabelle
  imports
    Main
    "HOL-Library.Sublist"
    "HOL-Library.Multiset"
    "HOL-Library.Char_ord"
    "HOL-Library.List_Lexorder"
begin

section \<open>Data model of \<^verbatim>\<open>drive/api/permissions.py\<close>\<close>

text \<open>
  The module reads five database tables through the Frappe query layer and keeps no state
  of its own. Every table is a list of rows in the order the database returns them. The
  implicit \<^verbatim>\<open>frappe.session.user\<close> is the explicit argument \<open>session_user\<close> of every
  function below. Check fields (\<^verbatim>\<open>read\<close>, \<^verbatim>\<open>write\<close>, \<^verbatim>\<open>is_active\<close>, ...) are the integers the
  database stores, and a nullable column is an \<open>option\<close>.
\<close>

text \<open>A row of \<^verbatim>\<open>Drive DocShare\<close>: one share grant.\<close>

record DocShare =
  share_doctype :: string
  share_name :: string
  user_doctype :: "string option"
  user_name :: "string option"
  read :: int
  "write" :: int
  share :: int
  everyone :: int
  public :: int

text \<open>A row of \<^verbatim>\<open>User Group Member\<close>: \<open>member_user\<close> belongs to the group \<open>member_parent\<close>.\<close>

record UserGroupMember =
  member_parent :: string
  member_user :: string

text \<open>
  A row of \<^verbatim>\<open>Drive Entity\<close>, with the columns the module selects. The pass-through columns
  \<^verbatim>\<open>file_ext\<close>, \<^verbatim>\<open>allow_comments\<close>, \<^verbatim>\<open>allow_download\<close> and \<^verbatim>\<open>color\<close> are copied to the caller
  and never inspected; they are left out.
\<close>

record Entity =
  name :: string
  title :: string
  owner :: string
  is_group :: int
  is_active :: int
  modified :: int
  creation :: int
  file_size :: int
  mime_type :: string
  parent_drive_entity :: "string option"
  document :: "string option"

text \<open>A row of \<^verbatim>\<open>Drive Favourite\<close> and a row of \<^verbatim>\<open>User\<close>.\<close>

record Favourite =
  fav_entity :: string
  fav_user :: string

record User =
  email :: string
  full_name :: string
  user_image :: string

text \<open>
  A Python dict with integer values, in insertion order. \<open>granted d k\<close> is the truth value
  of \<^verbatim>\<open>d.get(k)\<close>: a missing key is falsy.
\<close>

type_synonym pydict = "(string \<times> int) list"

definition granted :: "pydict \<Rightarrow> string \<Rightarrow> bool" where
  "granted d k = (case map_of d k of None \<Rightarrow> False | Some v \<Rightarrow> v \<noteq> 0)"

datatype error =
    PermissionError string
  | ValidationError string
  | DoesNotExistError string
  | IndexError
  | DatabaseError string

text \<open>
  The site: the tables, the log that \<^verbatim>\<open>mark_as_viewed\<close> writes, and the collaborators the module
  imports from the framework.
  \<^item> \<open>has_permission ptype doc user\<close> is \<^verbatim>\<open>frappe.has_permission\<close> on doctype Drive Entity.
  \<^item> \<open>get_ancestors_of e\<close> is \<^verbatim>\<open>frappe.utils.nestedset.get_ancestors_of("Drive Entity", e)\<close>.
  \<^item> \<open>get_doc_content d\<close> is \<^verbatim>\<open>drive.api.files.get_doc_content\<close>; its value is opaque here.
  \<^item> \<open>any_value g\<close> is the row from which the database fills the columns of a \<^verbatim>\<open>GROUP BY\<close>
    query that are neither grouped nor aggregated; SQL leaves the choice within the group
    \<open>g\<close> to the engine.
\<close>

record site =
  entities :: "Entity list"
  docshares :: "DocShare list"
  user_group_members :: "UserGroupMember list"
  favourites :: "Favourite list"
  users :: "User list"
  viewed :: "(string \<times> string) list"
  has_permission :: "string \<Rightarrow> string \<Rightarrow> string \<Rightarrow> bool"
  get_ancestors_of :: "Entity \<Rightarrow> string list"
  get_doc_content :: "string \<Rightarrow> string"
  any_value :: "DocShare list \<Rightarrow> DocShare"

section \<open>Access resolution\<close>

text \<open>
  \<^verbatim>\<open>frappe.db.get_value("Drive DocShare", filters, ["read", "write"], as_dict=1)\<close>: the first
  row that passes the filters, as a dict of the two fields, or \<^verbatim>\<open>None\<close>.
\<close>

definition get_value :: "DocShare list \<Rightarrow> (DocShare \<Rightarrow> bool) \<Rightarrow> pydict option" where
  "get_value tab flt =
     (case find flt tab of
        None \<Rightarrow> None
      | Some r \<Rightarrow> Some [(''read'', read r), (''write'', write r)])"

text \<open>The four filters of \<^verbatim>\<open>get_user_access\<close> and \<^verbatim>\<open>get_general_access\<close>.\<close>

definition user_filter :: "string \<Rightarrow> string \<Rightarrow> DocShare \<Rightarrow> bool" where
  "user_filter session_user entity_name s \<longleftrightarrow>
     share_doctype s = ''Drive Entity'' \<and> share_name s = entity_name \<and>
     user_doctype s = Some ''User'' \<and> user_name s = Some session_user"

definition everyone_filter :: "string \<Rightarrow> DocShare \<Rightarrow> bool" where
  "everyone_filter entity_name s \<longleftrightarrow> share_name s = entity_name \<and> everyone s = 1"

definition public_filter :: "string \<Rightarrow> DocShare \<Rightarrow> bool" where
  "public_filter entity_name s \<longleftrightarrow> share_name s = entity_name \<and> public s = 1"

text \<open>
  \<^verbatim>\<open>user_group_entity_access\<close>. The query joins the grants of the entity with the membership
  rows of the user on \<^verbatim>\<open>UserGroupMember.parent == DriveDocShare.user_name\<close> and groups by the
  primary key of the membership row: each membership row with at least one joined grant
  yields one result row, whose \<^verbatim>\<open>read\<close> and \<^verbatim>\<open>write\<close> come from \<open>any_value\<close> of its grants.
  \<open>group_grants\<close> is the group of one membership row, \<open>group_result\<close> the rows the query returns.
\<close>

definition group_grants :: "site \<Rightarrow> string \<Rightarrow> UserGroupMember \<Rightarrow> DocShare list" where
  "group_grants st entity_name m =
     filter (\<lambda>s. user_name s = Some (member_parent m) \<and> share_name s = entity_name)
       (docshares st)"

definition group_result :: "site \<Rightarrow> string \<Rightarrow> string \<Rightarrow> DocShare list" where
  "group_result st session_user entity_name =
     List.map_filter
       (\<lambda>m. if group_grants st entity_name m = [] then None
            else Some (any_value st (group_grants st entity_name m)))
       (filter (\<lambda>m. member_user m = session_user) (user_group_members st))"

text \<open>
  The result \<^verbatim>\<open>False\<close> is \<open>None\<close>. \<^verbatim>\<open>max\<close> over the non-empty result is a fold of \<open>max\<close> from
  its first element.
\<close>

definition user_group_entity_access :: "site \<Rightarrow> string \<Rightarrow> string \<Rightarrow> pydict option" where
  "user_group_entity_access st session_user entity_name =
     (case group_result st session_user entity_name of
        [] \<Rightarrow> None
      | d # ds \<Rightarrow>
          Some [(''read'', fold max (map read ds) (read d)),
                (''write'', fold max (map write ds) (write d))])"

text \<open>
  \<^verbatim>\<open>get_user_access\<close>. Each \<^verbatim>\<open>if x: return x\<close> tests a two-key dict or \<^verbatim>\<open>None\<close>/\<^verbatim>\<open>False\<close>; the dict
  is never empty, so the test is the case distinction on the option.
\<close>

definition no_access :: pydict where
  "no_access = [(''read'', 0), (''write'', 0)]"

definition get_user_access :: "site \<Rightarrow> string \<Rightarrow> string \<Rightarrow> pydict" where
  "get_user_access st session_user entity_name =
     (if session_user \<noteq> ''Guest'' then
        (case get_value (docshares st) (user_filter session_user entity_name) of
           Some user_access \<Rightarrow> user_access
         | None \<Rightarrow>
        (case user_group_entity_access st session_user entity_name of
           Some group_access \<Rightarrow> group_access
         | None \<Rightarrow>
        (case get_value (docshares st) (everyone_filter entity_name) of
           Some everyone_access \<Rightarrow> everyone_access
         | None \<Rightarrow>
        (case get_value (docshares st) (public_filter entity_name) of
           Some public_access \<Rightarrow> public_access
         | None \<Rightarrow> no_access))))
      else
        (case get_value (docshares st) (public_filter entity_name) of
           Some public_access \<Rightarrow> public_access
         | None \<Rightarrow> no_access))"

text \<open>
  \<^verbatim>\<open>get_general_access\<close>: the everyone and public grants of the entity. Grouping by the
  primary key of the grant keeps every row.
\<close>

definition get_general_access :: "site \<Rightarrow> string \<Rightarrow> DocShare list" where
  "get_general_access st entity_name =
     filter (\<lambda>s. share_name s = entity_name \<and> (everyone s = 1 \<or> public s = 1))
       (docshares st)"

section \<open>The metadata gate\<close>

text \<open>
  Modelled from the spec: \<^verbatim>\<open>drive.api.files.get_entity\<close> is imported but not among the sources.
  Section 6 gives \<^verbatim>\<open>GetEntity(id) -> Entity | NotFound\<close>: the row with that name, or a failure.
\<close>

definition get_entity :: "site \<Rightarrow> string \<Rightarrow> error + Entity" where
  "get_entity st entity_name =
     (case find (\<lambda>e. name e = entity_name) (entities st) of
        None \<Rightarrow> Inl (DoesNotExistError entity_name)
      | Some e \<Rightarrow> Inr e)"

text \<open>
  Modelled from the spec: \<^verbatim>\<open>drive.utils.users.mark_as_viewed\<close> is imported but not among the
  sources. Section 6 gives \<^verbatim>\<open>MarkViewed(entityId, principalId)\<close>, which updates the recently
  viewed record; here it adds the pair to the log \<open>viewed\<close>.
\<close>

definition mark_as_viewed :: "site \<Rightarrow> string \<Rightarrow> string \<Rightarrow> site" where
  "mark_as_viewed st session_user entity_name =
     st\<lparr>viewed := (entity_name, session_user) # viewed st\<rparr>"

text \<open>
  The loop over the ancestors: \<^verbatim>\<open>frappe.db.exists("Drive Entity", {"name": z, "is_active": 0})\<close>
  sets the flag and leaves the loop at the first inactive ancestor.
\<close>

definition exists_inactive :: "site \<Rightarrow> string \<Rightarrow> bool" where
  "exists_inactive st z = list_ex (\<lambda>e. name e = z \<and> is_active e = 0) (entities st)"

primrec ancestor_flag :: "site \<Rightarrow> string list \<Rightarrow> bool" where
  "ancestor_flag st [] = False"
| "ancestor_flag st (z # zs) = (if exists_inactive st z then True else ancestor_flag st zs)"

text \<open>
  The value returned: the entity, merged with the resolved access when the caller is not
  the owner, and with the document content when the entity has a document.
\<close>

record EntityWithPermissions =
  ewp_entity :: Entity
  ewp_access :: "pydict option"
  ewp_content :: "string option"

definition doc_content_of :: "site \<Rightarrow> Entity \<Rightarrow> string option" where
  "doc_content_of st e =
     (case document e of
        None \<Rightarrow> None
      | Some d \<Rightarrow> if d = [] then None else Some (get_doc_content st d))"

definition not_permitted :: error where
  "not_permitted = PermissionError ''Not permitted''"

definition parent_deleted :: error where
  "parent_deleted = ValidationError ''Parent Folder has been deleted''"

definition trashed :: error where
  "trashed = ValidationError ''Specified file has been trashed by the owner''"

text \<open>
  \<^verbatim>\<open>get_entity_with_permissions\<close>, statement by statement. The site is returned with the
  result, also when the function raises, because \<^verbatim>\<open>mark_as_viewed\<close> may have run by then.
\<close>

definition get_entity_with_permissions ::
    "site \<Rightarrow> string \<Rightarrow> string \<Rightarrow> (error + EntityWithPermissions) \<times> site" where
  "get_entity_with_permissions st session_user entity_name =
     (if get_general_access st entity_name = [] \<and>
         \<not> has_permission st ''read'' entity_name session_user
      then (Inl not_permitted, st)
      else
        (case get_entity st entity_name of
           Inl err \<Rightarrow> (Inl err, st)
         | Inr e \<Rightarrow>
             if ancestor_flag st (get_ancestors_of st e) then (Inl parent_deleted, st)
             else
               let st' = (if session_user \<noteq> ''Guest'' \<and> is_group e = 0
                          then mark_as_viewed st session_user entity_name else st)
               in if is_active e = 0 then (Inl trashed, st')
                  else if owner e = session_user
                  then (Inr \<lparr>ewp_entity = e, ewp_access = None,
                             ewp_content = doc_content_of st' e\<rparr>, st')
                  else (Inr \<lparr>ewp_entity = e,
                             ewp_access = Some (get_user_access st' session_user (name e)),
                             ewp_content = doc_content_of st' e\<rparr>, st')))"

section \<open>Listings\<close>

text \<open>
  A row of either listing: the entity, the owner's \<^verbatim>\<open>full_name\<close> and \<^verbatim>\<open>user_image\<close>
  (selected by \<^verbatim>\<open>get_shared_by_me\<close> only), the grant columns and \<^verbatim>\<open>is_favourite\<close>.
\<close>

record ListingRow =
  row_entity :: Entity
  row_full_name :: "string option"
  row_user_image :: "string option"
  row_read :: int
  row_write :: int
  row_everyone :: int
  row_share :: int
  is_favourite :: "string option"

definition favourite_of :: "site \<Rightarrow> string \<Rightarrow> Entity \<Rightarrow> string option" where
  "favourite_of st session_user e =
     (if list_ex (\<lambda>f. fav_entity f = name e \<and> fav_user f = session_user) (favourites st)
      then Some (name e) else None)"

text \<open>
  The query of \<^verbatim>\<open>get_shared_by_me\<close>. The left join attaches a grant only to an entity of the
  session user, and the \<^verbatim>\<open>WHERE\<close> clause is not true on a row without a grant, nor on
  \<^verbatim>\<open>user_name != session_user\<close> with a null \<^verbatim>\<open>user_name\<close>. Grouping by the primary key of the entity
  gives one row per entity with a non-empty group of grants.
\<close>

definition shared_by_me_grants :: "site \<Rightarrow> string \<Rightarrow> Entity \<Rightarrow> DocShare list" where
  "shared_by_me_grants st session_user e =
     filter (\<lambda>s. share_name s = name e \<and>
                 ((case user_name s of None \<Rightarrow> False | Some u \<Rightarrow> u \<noteq> session_user) \<or>
                  everyone s = 1 \<or> public s = 1))
       (docshares st)"

definition shared_by_me_row :: "site \<Rightarrow> string \<Rightarrow> Entity \<Rightarrow> ListingRow option" where
  "shared_by_me_row st session_user e =
     (let g = shared_by_me_grants st session_user e;
          u = find (\<lambda>u. email u = owner e) (users st)
      in if is_active e = 1 \<and> owner e = session_user \<and> g \<noteq> []
         then Some \<lparr>row_entity = e,
                    row_full_name = map_option full_name u,
                    row_user_image = map_option user_image u,
                    row_read = read (any_value st g),
                    row_write = write (any_value st g),
                    row_everyone = everyone (any_value st g),
                    row_share = share (any_value st g),
                    is_favourite = favourite_of st session_user e\<rparr>
         else None)"

definition shared_by_me_query :: "site \<Rightarrow> string \<Rightarrow> ListingRow list" where
  "shared_by_me_query st session_user =
     List.map_filter (shared_by_me_row st session_user) (entities st)"

text \<open>
  The query of \<^verbatim>\<open>get_shared_with_me\<close>: a grant of the entity counts when a membership row of
  the session user joins it, when it names the session user, or when it is an everyone
  grant. A grant joined by several membership rows is listed once in the group here; only
  the members of the group matter to \<open>any_value\<close> and to \<^verbatim>\<open>Max(write)\<close>.
\<close>

definition shared_with_me_grants :: "site \<Rightarrow> string \<Rightarrow> Entity \<Rightarrow> DocShare list" where
  "shared_with_me_grants st session_user e =
     filter (\<lambda>s. share_name s = name e \<and>
                 (list_ex (\<lambda>m. Some (member_parent m) = user_name s \<and>
                                member_user m = session_user) (user_group_members st) \<or>
                  user_name s = Some session_user \<or> everyone s = 1))
       (docshares st)"

definition shared_with_me_row :: "site \<Rightarrow> string \<Rightarrow> Entity \<Rightarrow> ListingRow option" where
  "shared_with_me_row st session_user e =
     (case shared_with_me_grants st session_user e of
        [] \<Rightarrow> None
      | s # ss \<Rightarrow>
          if is_active e = 1
          then Some \<lparr>row_entity = e,
                     row_full_name = None,
                     row_user_image = None,
                     row_read = read (any_value st (s # ss)),
                     row_write = fold max (map write ss) (write s),
                     row_everyone = everyone (any_value st (s # ss)),
                     row_share = share (any_value st (s # ss)),
                     is_favourite = favourite_of st session_user e\<rparr>
          else None)"

definition shared_with_me_query :: "site \<Rightarrow> string \<Rightarrow> ListingRow list" where
  "shared_with_me_query st session_user =
     List.map_filter (shared_with_me_row st session_user) (entities st)"

text \<open>
  \<^verbatim>\<open>ORDER BY\<close>. A column value is null, an integer or a string; nulls sort first. The sort
  is an insertion sort by the column named in \<^verbatim>\<open>order_by\<close>. A name outside the select list
  is not modelled and counts as a failing query.
\<close>

datatype colval = NullVal | IntVal int | StrVal string

fun colval_le :: "colval \<Rightarrow> colval \<Rightarrow> bool" where
  "colval_le NullVal _ = True"
| "colval_le (IntVal a) (IntVal b) = (a \<le> b)"
| "colval_le (StrVal a) (StrVal b) = (a \<le> b)"
| "colval_le (IntVal _) (StrVal _) = True"
| "colval_le _ _ = False"

definition opt_str :: "string option \<Rightarrow> colval" where
  "opt_str x = (case x of None \<Rightarrow> NullVal | Some s \<Rightarrow> StrVal s)"

definition column :: "string \<Rightarrow> (ListingRow \<Rightarrow> colval) option" where
  "column =
     map_of
       [(''name'', \<lambda>r. StrVal (name (row_entity r))),
        (''title'', \<lambda>r. StrVal (title (row_entity r))),
        (''is_group'', \<lambda>r. IntVal (is_group (row_entity r))),
        (''full_name'', \<lambda>r. opt_str (row_full_name r)),
        (''user_image'', \<lambda>r. opt_str (row_user_image r)),
        (''owner'', \<lambda>r. StrVal (owner (row_entity r))),
        (''modified'', \<lambda>r. IntVal (modified (row_entity r))),
        (''creation'', \<lambda>r. IntVal (creation (row_entity r))),
        (''file_size'', \<lambda>r. IntVal (file_size (row_entity r))),
        (''mime_type'', \<lambda>r. StrVal (mime_type (row_entity r))),
        (''parent_drive_entity'', \<lambda>r. opt_str (parent_drive_entity (row_entity r))),
        (''document'', \<lambda>r. opt_str (document (row_entity r))),
        (''read'', \<lambda>r. IntVal (row_read r)),
        (''write'', \<lambda>r. IntVal (row_write r)),
        (''everyone'', \<lambda>r. IntVal (row_everyone r)),
        (''share'', \<lambda>r. IntVal (row_share r)),
        (''is_favourite'', \<lambda>r. opt_str (is_favourite r))]"

fun insert_row :: "('a \<Rightarrow> 'a \<Rightarrow> bool) \<Rightarrow> 'a \<Rightarrow> 'a list \<Rightarrow> 'a list" where
  "insert_row le x [] = [x]"
| "insert_row le x (y # ys) = (if le x y then x # y # ys else y # insert_row le x ys)"

definition sort_rows :: "('a \<Rightarrow> 'a \<Rightarrow> bool) \<Rightarrow> 'a list \<Rightarrow> 'a list" where
  "sort_rows le xs = foldr (insert_row le) xs []"

definition orderby :: "string \<Rightarrow> bool \<Rightarrow> ListingRow list \<Rightarrow> error + ListingRow list" where
  "orderby field desc rows =
     (case column field of
        None \<Rightarrow> Inl (DatabaseError field)
      | Some key \<Rightarrow>
          Inr (sort_rows
                 (\<lambda>a b. if desc then colval_le (key b) (key a) else colval_le (key a) (key b))
                 rows))"

text \<open>Python's \<^verbatim>\<open>str.split()\<close>: the maximal runs of characters that are not (ASCII) whitespace.\<close>

definition is_space :: "char \<Rightarrow> bool" where
  "is_space c \<longleftrightarrow>
     c \<in> set [CHR '' '', CHR 0x09, CHR 0x0A, CHR 0x0B, CHR 0x0C, CHR 0x0D,
              CHR 0x1C, CHR 0x1D, CHR 0x1E, CHR 0x1F]"

fun split_acc :: "string \<Rightarrow> string \<Rightarrow> string list" where
  "split_acc cur [] = (if cur = [] then [] else [rev cur])"
| "split_acc cur (c # cs) =
     (if is_space c
      then (if cur = [] then split_acc [] cs else rev cur # split_acc [] cs)
      else split_acc (c # cur) cs)"

definition py_split :: "string \<Rightarrow> string list" where
  "py_split s = split_acc [] s"

text \<open>\<^verbatim>\<open>x.parent_drive_entity not in names\<close>; a null parent is in no list of names.\<close>

definition not_in :: "string option \<Rightarrow> string list \<Rightarrow> bool" where
  "not_in p names = (case p of None \<Rightarrow> True | Some q \<Rightarrow> q \<notin> set names)"

definition row_name :: "ListingRow \<Rightarrow> string" where
  "row_name x = name (row_entity x)"

text \<open>
  \<^verbatim>\<open>get_shared_by_me\<close> and \<^verbatim>\<open>get_shared_with_me\<close>. With \<^verbatim>\<open>get_all\<close> the rows of the query are
  returned as they are. Otherwise \<^verbatim>\<open>order_by.split()[0]\<close> names the sort column (an empty
  split raises \<^verbatim>\<open>IndexError\<close>), \<^verbatim>\<open>order_by.endswith("desc")\<close> gives the direction, and the
  sorted rows are filtered.
\<close>

definition get_shared_by_me :: "site \<Rightarrow> string \<Rightarrow> bool \<Rightarrow> string \<Rightarrow> error + ListingRow list" where
  "get_shared_by_me st session_user get_all order_by =
     (if get_all then Inr (shared_by_me_query st session_user)
      else
        (case py_split order_by of
           [] \<Rightarrow> Inl IndexError
         | field # _ \<Rightarrow>
             (case orderby field (suffix ''desc'' order_by) (shared_by_me_query st session_user) of
                Inl err \<Rightarrow> Inl err
              | Inr result \<Rightarrow>
                  let names = map row_name result
                  in Inr (filter (\<lambda>x. not_in (parent_drive_entity (row_entity x)) names)
                            result))))"

definition get_shared_with_me :: "site \<Rightarrow> string \<Rightarrow> bool \<Rightarrow> string \<Rightarrow> error + ListingRow list" where
  "get_shared_with_me st session_user get_all order_by =
     (if get_all then Inr (shared_with_me_query st session_user)
      else
        (case py_split order_by of
           [] \<Rightarrow> Inl IndexError
         | field # _ \<Rightarrow>
             (case orderby field (suffix ''desc'' order_by) (shared_with_me_query st session_user) of
                Inl err \<Rightarrow> Inl err
              | Inr result \<Rightarrow>
                  let names = map row_name result
                  in Inr (filter (\<lambda>x. not_in (parent_drive_entity (row_entity x)) names \<and>
                                      owner (row_entity x) \<noteq> session_user)
                            result))))"

section \<open>Notions used to state the properties\<close>






section \<open>Example sites\<close>

text \<open>Concrete rows and sites on which the theorems below are exercised.\<close>

definition grant ::
    "string \<Rightarrow> string option \<Rightarrow> string option \<Rightarrow> int \<Rightarrow> int \<Rightarrow> int \<Rightarrow> int \<Rightarrow> int \<Rightarrow> DocShare" where
  "grant e dt un r w sh ev pu =
     \<lparr>share_doctype = ''Drive Entity'', share_name = e, user_doctype = dt, user_name = un,
      read = r, write = w, share = sh, everyone = ev, public = pu\<rparr>"

definition user_grant :: "string \<Rightarrow> string \<Rightarrow> int \<Rightarrow> int \<Rightarrow> int \<Rightarrow> DocShare" where
  "user_grant e u r w sh = grant e (Some ''User'') (Some u) r w sh 0 0"

definition group_grant :: "string \<Rightarrow> string \<Rightarrow> int \<Rightarrow> int \<Rightarrow> DocShare" where
  "group_grant e g r w = grant e (Some ''User Group'') (Some g) r w 0 0 0"

definition everyone_grant :: "string \<Rightarrow> int \<Rightarrow> int \<Rightarrow> DocShare" where
  "everyone_grant e r w = grant e None None r w 0 1 0"

definition public_grant :: "string \<Rightarrow> int \<Rightarrow> int \<Rightarrow> DocShare" where
  "public_grant e r w = grant e None None r w 0 0 1"

definition node :: "string \<Rightarrow> string \<Rightarrow> int \<Rightarrow> int \<Rightarrow> string option \<Rightarrow> Entity" where
  "node n ow grp act par =
     \<lparr>name = n, title = n, owner = ow, is_group = grp, is_active = act, modified = 0,
      creation = 0, file_size = 0, mime_type = ''text/plain'', parent_drive_entity = par,
      document = None\<rparr>"

definition blank_site :: site where
  "blank_site =
     \<lparr>entities = [], docshares = [], user_group_members = [], favourites = [], users = [],
      viewed = [], has_permission = (\<lambda>ptype doc u. False), get_ancestors_of = (\<lambda>e. []),
      get_doc_content = (\<lambda>d. []), any_value = hd\<rparr>"

text \<open>
  File F of alice, with an all-false direct grant to bob, a read-write grant to the group
  staff (bob is a member), and read-write everyone and public grants.
\<close>

definition precedence_site :: site where
  "precedence_site =
     blank_site
       \<lparr>entities := [node ''F'' ''alice'' 0 1 None],
        docshares := [group_grant ''F'' ''staff'' 1 1, everyone_grant ''F'' 1 1,
                      user_grant ''F'' ''bob'' 0 0 1, public_grant ''F'' 1 1],
        user_group_members := [\<lparr>member_parent = ''staff'', member_user = ''bob''\<rparr>]\<rparr>"



text \<open>File F of alice without any grant; the framework lets everybody read and nobody write.\<close>

definition reader_site :: site where
  "reader_site =
     blank_site
       \<lparr>entities := [node ''F'' ''alice'' 0 1 None],
        has_permission := (\<lambda>ptype doc u. ptype = ''read'')\<rparr>"

text \<open>
  Root, its deleted subfolder Mid, and the active file Leaf in Mid, shared with bob at full
  access. The framework permits alice and bob, and nobody else.
\<close>

definition chain_site :: site where
  "chain_site =
     blank_site
       \<lparr>entities := [node ''Root'' ''alice'' 1 1 None, node ''Mid'' ''alice'' 1 0 (Some ''Root''),
                     node ''Leaf'' ''alice'' 0 1 (Some ''Mid'')],
        docshares := [user_grant ''Leaf'' ''bob'' 1 1 1],
        has_permission := (\<lambda>ptype doc u. u = ''alice'' \<or> u = ''bob''),
        get_ancestors_of := (\<lambda>e. if name e = ''Leaf'' then [''Mid'', ''Root'']
                                  else if name e = ''Mid'' then [''Root''] else [])\<rparr>"

text \<open>The trashed file F of alice; the framework permits everybody.\<close>

definition trashed_site :: site where
  "trashed_site =
     blank_site
       \<lparr>entities := [node ''F'' ''alice'' 0 0 None],
        has_permission := (\<lambda>ptype doc u. True)\<rparr>"

text \<open>File F of alice, with an all-false grant row that names alice herself.\<close>

definition owner_site :: site where
  "owner_site =
     blank_site
       \<lparr>entities := [node ''F'' ''alice'' 0 1 None],
        docshares := [user_grant ''F'' ''alice'' 0 0 0],
        has_permission := (\<lambda>ptype doc u. True)\<rparr>"



section \<open>Properties of access resolution\<close>

lemmas example_defs =
  blank_site_def grant_def user_grant_def group_grant_def everyone_grant_def
  public_grant_def node_def

lemmas access_defs =
  get_user_access_def get_value_def user_filter_def everyone_filter_def public_filter_def
  user_group_entity_access_def group_result_def group_grants_def map_filter_simps
  no_access_def

subsection \<open>Direct grants\<close>

text \<open>
  C2. For an authenticated session user with a direct grant row on the entity,
  \<^verbatim>\<open>get_user_access\<close> returns the \<^verbatim>\<open>read\<close> and \<^verbatim>\<open>write\<close> of that row (the first one the
  database yields): the result is a function of the row alone, whatever group, everyone or
  public grants the entity has and whatever the flags of the row are.
\<close>

theorem direct_grant_precedence:
  assumes "session_user \<noteq> ''Guest''"
    and "find (user_filter session_user entity_name) (docshares st) = Some r"
  shows "get_user_access st session_user entity_name =
           [(''read'', read r), (''write'', write r)]"
  using assms by (simp add: get_user_access_def get_value_def)

text \<open>
  On \<open>precedence_site\<close> bob holds an all-false direct row while his group, the everyone
  grant and the public grant all give read and write; the all-false row is returned.
\<close>

theorem direct_grant_precedence_witness:
  "''bob'' \<noteq> ''Guest''
   \<and> find (user_filter ''bob'' ''F'') (docshares precedence_site) =
       Some (user_grant ''F'' ''bob'' 0 0 1)
   \<and> user_group_entity_access precedence_site ''bob'' ''F'' = Some [(''read'', 1), (''write'', 1)]
   \<and> get_value (docshares precedence_site) (everyone_filter ''F'') =
       Some [(''read'', 1), (''write'', 1)]
   \<and> get_user_access precedence_site ''bob'' ''F'' = [(''read'', 0), (''write'', 0)]"
proof -
  have h1: "''bob'' \<noteq> ''Guest''" by simp
  have h2: "find (user_filter ''bob'' ''F'') (docshares precedence_site) =
              Some (user_grant ''F'' ''bob'' 0 0 1)"
    by (simp add: precedence_site_def example_defs user_filter_def)
  have g: "user_group_entity_access precedence_site ''bob'' ''F'' =
             Some [(''read'', 1), (''write'', 1)]"
    by (simp add: precedence_site_def example_defs access_defs)
  have e: "get_value (docshares precedence_site) (everyone_filter ''F'') =
             Some [(''read'', 1), (''write'', 1)]"
    by (simp add: precedence_site_def example_defs access_defs)
  have "get_user_access precedence_site ''bob'' ''F'' = [(''read'', 0), (''write'', 0)]"
    using direct_grant_precedence [OF h1 h2] by (simp add: example_defs)
  with h1 h2 g e show ?thesis by blast
qed

subsection \<open>The anonymous caller\<close>



subsection \<open>The fields of a decision\<close>



subsection \<open>Group aggregation\<close>
















section \<open>Properties of the metadata gate\<close>

lemmas gate_defs =
  get_entity_with_permissions_def get_general_access_def get_entity_def mark_as_viewed_def
  doc_content_of_def exists_inactive_def

lemma ancestor_flag_iff: "ancestor_flag st zs \<longleftrightarrow> (\<exists>z \<in> set zs. exists_inactive st z)"
  by (induction zs) auto

lemma errors_distinct:
  "not_permitted \<noteq> parent_deleted" "not_permitted \<noteq> trashed" "parent_deleted \<noteq> trashed"
  "not_permitted \<noteq> DoesNotExistError x"
  by (simp_all add: not_permitted_def parent_deleted_def trashed_def)

lemma doc_content_of_viewed [simp]:
  "doc_content_of (mark_as_viewed st u n) e = doc_content_of st e"
  by (simp add: doc_content_of_def mark_as_viewed_def split: option.splits)

subsection \<open>The permission check\<close>

text \<open>
  C3, as amended. When \<^verbatim>\<open>get_general_access\<close> is empty for the entity,
  \<^verbatim>\<open>get_entity_with_permissions\<close> raises the permission failure exactly when
  \<^verbatim>\<open>frappe.has_permission\<close> denies the session user \<^verbatim>\<open>read\<close> on the entity; it then raises
  before anything else happens, so the site is unchanged. The level checked is read.
\<close>

theorem gate_checks_read:
  assumes "get_general_access st entity_name = []"
  shows "(fst (get_entity_with_permissions st session_user entity_name) = Inl not_permitted
            \<longleftrightarrow> \<not> has_permission st ''read'' entity_name session_user)
       \<and> (\<not> has_permission st ''read'' entity_name session_user \<longrightarrow>
            get_entity_with_permissions st session_user entity_name = (Inl not_permitted, st))"
  using assms
  by (auto simp: get_entity_with_permissions_def get_entity_def Let_def not_permitted_def
      parent_deleted_def trashed_def split: option.splits)

text \<open>
  On \<open>chain_site\<close> carol has no read permission on the folder Root and is refused; bob has it
  and is not.
\<close>

theorem gate_checks_read_witness:
  "get_general_access chain_site ''Root'' = []
   \<and> \<not> has_permission chain_site ''read'' ''Root'' ''carol''
   \<and> get_entity_with_permissions chain_site ''carol'' ''Root'' = (Inl not_permitted, chain_site)
   \<and> has_permission chain_site ''read'' ''Root'' ''bob''
   \<and> fst (get_entity_with_permissions chain_site ''bob'' ''Root'') \<noteq> Inl not_permitted"
proof -
  have h: "get_general_access chain_site ''Root'' = []"
    by (simp add: chain_site_def example_defs get_general_access_def)
  have c: "\<not> has_permission chain_site ''read'' ''Root'' ''carol''"
    by (simp add: chain_site_def example_defs)
  have b: "has_permission chain_site ''read'' ''Root'' ''bob''"
    by (simp add: chain_site_def example_defs)
  from gate_checks_read [OF h, of "''carol''"] c
  have 1: "get_entity_with_permissions chain_site ''carol'' ''Root'' =
             (Inl not_permitted, chain_site)"
    by blast
  from gate_checks_read [OF h, of "''bob''"] b
  have 2: "fst (get_entity_with_permissions chain_site ''bob'' ''Root'') \<noteq> Inl not_permitted"
    by blast
  from h c b 1 2 show ?thesis by blast
qed

text \<open>
  C3 as stated requires write. On \<open>reader_site\<close> the file F has no everyone or public grant,
  bob has no write permission from the framework and no write flag from \<^verbatim>\<open>get_user_access\<close>,
  and the gate still returns the file to him.
\<close>

theorem gate_checks_write_counterexample:
  "get_general_access reader_site ''F'' = []
   \<and> \<not> has_permission reader_site ''write'' ''F'' ''bob''
   \<and> \<not> granted (get_user_access reader_site ''bob'' ''F'') ''write''
   \<and> fst (get_entity_with_permissions reader_site ''bob'' ''F'') =
       Inr \<lparr>ewp_entity = node ''F'' ''alice'' 0 1 None,
            ewp_access = Some [(''read'', 0), (''write'', 0)], ewp_content = None\<rparr>"
  by (simp add: reader_site_def example_defs access_defs gate_defs granted_def)

subsection \<open>Deleted ancestors\<close>

text \<open>
  C4, as amended. Let the entity exist and let one of its ancestors be inactive. For every
  session user that passes the permission check (an everyone or public grant exists, or the
  framework grants read), \<^verbatim>\<open>get_entity_with_permissions\<close> raises "Parent Folder has been
  deleted" and leaves the site unchanged, whoever owns the entity, whatever grants it has
  and whether or not it is itself trashed. That failure differs from the trashed failure.
\<close>

theorem ancestor_deleted_after_permission:
  assumes "get_general_access st entity_name \<noteq> [] \<or>
           has_permission st ''read'' entity_name session_user"
    and "get_entity st entity_name = Inr e"
    and "\<exists>z \<in> set (get_ancestors_of st e). exists_inactive st z"
  shows "get_entity_with_permissions st session_user entity_name = (Inl parent_deleted, st)
       \<and> parent_deleted \<noteq> trashed"
  using assms
  by (auto simp: get_entity_with_permissions_def ancestor_flag_iff errors_distinct)

text \<open>
  On \<open>chain_site\<close> the file Leaf lies under the deleted folder Mid. Bob, who holds a full
  direct grant on Leaf, is refused with the ancestor failure.
\<close>

theorem ancestor_deleted_after_permission_witness:
  "has_permission chain_site ''read'' ''Leaf'' ''bob''
   \<and> get_entity chain_site ''Leaf'' = Inr (node ''Leaf'' ''alice'' 0 1 (Some ''Mid''))
   \<and> ''Mid'' \<in> set (get_ancestors_of chain_site (node ''Leaf'' ''alice'' 0 1 (Some ''Mid'')))
   \<and> exists_inactive chain_site ''Mid''
   \<and> get_user_access chain_site ''bob'' ''Leaf'' = [(''read'', 1), (''write'', 1)]
   \<and> get_entity_with_permissions chain_site ''bob'' ''Leaf'' = (Inl parent_deleted, chain_site)"
proof -
  have p: "has_permission chain_site ''read'' ''Leaf'' ''bob''"
    by (simp add: chain_site_def example_defs)
  then have h1: "get_general_access chain_site ''Leaf'' \<noteq> [] \<or>
                 has_permission chain_site ''read'' ''Leaf'' ''bob''"
    by blast
  have h2: "get_entity chain_site ''Leaf'' = Inr (node ''Leaf'' ''alice'' 0 1 (Some ''Mid''))"
    by (simp add: chain_site_def example_defs get_entity_def)
  have a: "''Mid'' \<in> set (get_ancestors_of chain_site (node ''Leaf'' ''alice'' 0 1 (Some ''Mid'')))"
    by (simp add: chain_site_def example_defs)
  have i: "exists_inactive chain_site ''Mid''"
    by (simp add: chain_site_def example_defs exists_inactive_def)
  from a i have h3: "\<exists>z \<in> set (get_ancestors_of chain_site
                        (node ''Leaf'' ''alice'' 0 1 (Some ''Mid''))). exists_inactive chain_site z"
    by blast
  have g: "get_user_access chain_site ''bob'' ''Leaf'' = [(''read'', 1), (''write'', 1)]"
    by (simp add: chain_site_def example_defs access_defs)
  from ancestor_deleted_after_permission [OF h1 h2 h3] p h2 a i g show ?thesis by blast
qed

text \<open>
  C4 as stated speaks of every principal. On \<open>chain_site\<close> carol does not pass the permission
  check, which comes first: for Leaf under the deleted Mid she gets the permission failure,
  not the ancestor failure.
\<close>

theorem ancestor_deleted_counterexample:
  "exists_inactive chain_site ''Mid''
   \<and> ''Mid'' \<in> set (get_ancestors_of chain_site (node ''Leaf'' ''alice'' 0 1 (Some ''Mid'')))
   \<and> get_entity_with_permissions chain_site ''carol'' ''Leaf'' = (Inl not_permitted, chain_site)
   \<and> not_permitted \<noteq> parent_deleted"
  by (simp add: chain_site_def example_defs gate_defs not_permitted_def parent_deleted_def)

subsection \<open>The recently viewed record\<close>

text \<open>
  The record changes exactly when the permission check passes, the entity exists, no
  ancestor is inactive, the caller is not Guest and the entity is not a folder; whether the
  entity is active plays no part.
\<close>

lemma viewed_updated_iff:
  "viewed (snd (get_entity_with_permissions st session_user entity_name)) \<noteq> viewed st \<longleftrightarrow>
     (get_general_access st entity_name \<noteq> [] \<or>
      has_permission st ''read'' entity_name session_user) \<and>
     (\<exists>e. get_entity st entity_name = Inr e \<and> \<not> ancestor_flag st (get_ancestors_of st e)
          \<and> session_user \<noteq> ''Guest'' \<and> is_group e = 0)"
  by (cases "get_entity st entity_name")
     (auto simp: get_entity_with_permissions_def mark_as_viewed_def Let_def)

text \<open>
  C7. A caller other than Guest asks for a trashed file (not a folder) whose ancestors are
  all active and passes the permission check. \<^verbatim>\<open>mark_as_viewed\<close> runs before the test of
  \<^verbatim>\<open>is_active\<close>: the function raises the trashed failure, and the recently viewed record has
  been updated all the same.
\<close>

theorem viewed_before_trashed:
  "viewed trashed_site = []
   \<and> get_entity_with_permissions trashed_site ''bob'' ''F'' =
       (Inl trashed, trashed_site\<lparr>viewed := [(''F'', ''bob'')]\<rparr>)"
  by (simp add: trashed_site_def example_defs gate_defs)

subsection \<open>The owner\<close>

text \<open>
  C1, as amended. Whenever \<^verbatim>\<open>get_entity_with_permissions\<close> returns a value to the owner of
  the entity, the value is the entity itself with its document content and without any
  resolved access: \<^verbatim>\<open>get_user_access\<close> is not called, so no grant row on the entity bears on
  it. No dict of \<^verbatim>\<open>read\<close>, \<^verbatim>\<open>write\<close> and \<^verbatim>\<open>share\<close> is produced for an owner.
\<close>

theorem owner_gets_entity_only:
  assumes "get_entity st entity_name = Inr e"
    and "owner e = session_user"
    and "fst (get_entity_with_permissions st session_user entity_name) = Inr r"
  shows "r = \<lparr>ewp_entity = e, ewp_access = None, ewp_content = doc_content_of st e\<rparr>"
  using assms
  by (auto simp: get_entity_with_permissions_def Let_def split: if_splits)

theorem owner_gets_entity_only_witness:
  "get_entity owner_site ''F'' = Inr (node ''F'' ''alice'' 0 1 None)
   \<and> owner (node ''F'' ''alice'' 0 1 None) = ''alice''
   \<and> fst (get_entity_with_permissions owner_site ''alice'' ''F'') =
       Inr \<lparr>ewp_entity = node ''F'' ''alice'' 0 1 None, ewp_access = None, ewp_content = None\<rparr>"
proof -
  have h1: "get_entity owner_site ''F'' = Inr (node ''F'' ''alice'' 0 1 None)"
    by (simp add: owner_site_def example_defs get_entity_def)
  have h2: "owner (node ''F'' ''alice'' 0 1 None) = ''alice''"
    by (simp add: node_def)
  obtain r where h3: "fst (get_entity_with_permissions owner_site ''alice'' ''F'') = Inr r"
    by (simp add: owner_site_def example_defs gate_defs)
  have "doc_content_of owner_site (node ''F'' ''alice'' 0 1 None) = None"
    by (simp add: doc_content_of_def node_def)
  with owner_gets_entity_only [OF h1 h2 h3] h1 h2 h3 show ?thesis by simp
qed

text \<open>
  C1 as stated fails for \<^verbatim>\<open>get_user_access\<close>, which never looks at the owner. On
  \<open>owner_site\<close> alice owns F and a grant row naming her has both flags 0: the function
  returns that row, with neither read nor write and no \<^verbatim>\<open>share\<close> entry.
\<close>

theorem owner_resolution_counterexample:
  "get_entity owner_site ''F'' = Inr (node ''F'' ''alice'' 0 1 None)
   \<and> owner (node ''F'' ''alice'' 0 1 None) = ''alice''
   \<and> get_user_access owner_site ''alice'' ''F'' = [(''read'', 0), (''write'', 0)]
   \<and> \<not> granted (get_user_access owner_site ''alice'' ''F'') ''read''"
  by (simp add: owner_site_def example_defs get_entity_def access_defs granted_def)

section \<open>Properties of the listings\<close>



text \<open>Sorting permutes the rows, and a sorted listing returns for every selected column.\<close>

lemma set_insert_row: "set (insert_row le x xs) = insert x (set xs)"
  by (induction xs) auto

lemma set_sort_rows: "set (sort_rows le xs) = set xs"
  unfolding sort_rows_def by (induction xs) (simp_all add: set_insert_row)

lemma orderby_set: "orderby field desc rows = Inr result \<Longrightarrow> set result = set rows"
  by (auto simp: orderby_def set_sort_rows split: option.splits)

lemma sorted_listing_returns:
  assumes "py_split order_by = field # rest" and "column field = Some key"
  shows "\<exists>rows. get_shared_with_me st session_user False order_by = Inr rows"
    and "\<exists>rows. get_shared_by_me st session_user False order_by = Inr rows"
  using assms by (simp_all add: get_shared_with_me_def get_shared_by_me_def orderby_def)


subsection \<open>Children of listed entities\<close>



subsection \<open>Entities of the session user\<close>




end
